theory Spec2Isabelle
  imports Complex_Main "HOL-Library.Multiset"
begin

section \<open>Python values and exceptions\<close>

text \<open>
  The server (\<^verbatim>\<open>server.py\<close>) moves JSON documents between a CSV file, two HTTP
  APIs and its caller. A value decoded by \<^verbatim>\<open>response.json()\<close>, and every \<^verbatim>\<open>dict\<close> or
  \<^verbatim>\<open>list\<close> the handlers build, is a \<open>json\<close>. A \<^verbatim>\<open>dict\<close> is an association list in
  insertion order, read with \<open>map_of\<close>; in a real \<^verbatim>\<open>dict\<close> the keys are distinct.
  Strings are \<open>char list\<close>: the handlers only concatenate and compare them.
\<close>

datatype json =
    JNull
  | JBool bool
  | JInt int
  | JFloat real
  | JStr string
  | JList "json list"
  | JObj "(string \<times> json) list"

text \<open>
  The exceptions (instances of \<^verbatim>\<open>Exception\<close>) that the handlers tell apart, each with
  its \<^verbatim>\<open>str(e)\<close>. \<^verbatim>\<open>httpx.TimeoutException\<close> is a subclass of \<^verbatim>\<open>httpx.RequestError\<close>;
  here \<open>RequestError\<close> stands for the request errors that are not timeouts, and the
  handlers below test \<open>TimeoutException\<close> first, as the \<^verbatim>\<open>except\<close> clauses do.
  \<open>HTTPStatusError\<close> carries \<^verbatim>\<open>e.response.status_code\<close>. An exception of any other
  class (a polars error, a JSON decoding error) is an \<open>OtherException\<close>. Messages of
  the interpreter are worded as CPython 3.12 words them, those of polars are shortened.
\<close>

datatype exn =
    HTTPStatusError nat string
  | TimeoutException string
  | RequestError string
  | FileNotFoundError string
  | KeyError string
  | IndexError string
  | TypeError string
  | AttributeError string
  | OtherException string

fun str_exn :: "exn \<Rightarrow> string" where
  "str_exn (HTTPStatusError status msg) = msg"
| "str_exn (TimeoutException msg) = msg"
| "str_exn (RequestError msg) = msg"
| "str_exn (FileNotFoundError msg) = msg"
| "str_exn (KeyError msg) = msg"
| "str_exn (IndexError msg) = msg"
| "str_exn (TypeError msg) = msg"
| "str_exn (AttributeError msg) = msg"
| "str_exn (OtherException msg) = msg"

text \<open>Sequencing of steps that may raise: the first exception ends the block.\<close>

definition bind_exn :: "exn + 'a \<Rightarrow> ('a \<Rightarrow> exn + 'b) \<Rightarrow> exn + 'b" where
  "bind_exn m f = (case m of Inl e \<Rightarrow> Inl e | Inr v \<Rightarrow> f v)"

subsection \<open>Formatting\<close>

definition quoted :: "string \<Rightarrow> string" where
  \<comment> \<open>\<^verbatim>\<open>'{s}'\<close> inside an f-string, and \<^verbatim>\<open>repr\<close> of a plain key\<close>
  "quoted s = CHR 0x27 # s @ [CHR 0x27]"

fun str_nat :: "nat \<Rightarrow> string" where
  "str_nat n =
     (if n < 10 then [''0123456789'' ! n]
      else str_nat (n div 10) @ [''0123456789'' ! (n mod 10)])"

declare str_nat.simps [simp del]

definition str_int :: "int \<Rightarrow> string" where
  \<comment> \<open>\<^verbatim>\<open>str(year)\<close>\<close>
  "str_int i = (if i < 0 then CHR ''-'' # str_nat (nat (- i)) else str_nat (nat i))"

definition ascii_upper_char :: "char \<Rightarrow> char" where
  "ascii_upper_char c =
     (case map_of (zip ''abcdefghijklmnopqrstuvwxyz'' ''ABCDEFGHIJKLMNOPQRSTUVWXYZ'') c of
        Some u \<Rightarrow> u
      | None \<Rightarrow> c)"

definition ascii_upper :: "string \<Rightarrow> string" where
  \<comment> \<open>what \<^verbatim>\<open>str.upper()\<close> does to a string of ASCII characters; it is not \<^verbatim>\<open>str.upper()\<close> on
      other text, and only ASCII codes are run through it below\<close>
  "ascii_upper s = map ascii_upper_char s"

definition error_payload :: "string \<Rightarrow> json" where
  \<comment> \<open>\<^verbatim>\<open>{"error": msg}\<close>\<close>
  "error_payload msg = JObj [(''error'', JStr msg)]"

subsection \<open>Operations of the interpreter on decoded JSON\<close>

fun type_name :: "json \<Rightarrow> string" where
  "type_name JNull = ''NoneType''"
| "type_name (JBool b) = ''bool''"
| "type_name (JInt i) = ''int''"
| "type_name (JFloat x) = ''float''"
| "type_name (JStr s) = ''str''"
| "type_name (JList xs) = ''list''"
| "type_name (JObj kvs) = ''dict''"

fun truthy :: "json \<Rightarrow> bool" where
  "truthy JNull = False"
| "truthy (JBool b) = b"
| "truthy (JInt i) = (i \<noteq> 0)"
| "truthy (JFloat x) = (x \<noteq> 0)"
| "truthy (JStr s) = (s \<noteq> [])"
| "truthy (JList xs) = (xs \<noteq> [])"
| "truthy (JObj kvs) = (kvs \<noteq> [])"

fun subscript_str :: "json \<Rightarrow> string \<Rightarrow> exn + json" where
  \<comment> \<open>\<^verbatim>\<open>v[k]\<close> with a string key\<close>
  "subscript_str (JObj kvs) k =
     (case map_of kvs k of Some x \<Rightarrow> Inr x | None \<Rightarrow> Inl (KeyError (quoted k)))"
| "subscript_str (JList xs) k =
     Inl (TypeError ''list indices must be integers or slices, not str'')"
| "subscript_str (JStr s) k =
     Inl (TypeError (''string indices must be integers, not '' @ quoted ''str''))"
| "subscript_str v k =
     Inl (TypeError (quoted (type_name v) @ '' object is not subscriptable''))"

fun subscript_int :: "json \<Rightarrow> nat \<Rightarrow> exn + json" where
  \<comment> \<open>\<^verbatim>\<open>v[i]\<close> with a literal index \<open>0\<close> or \<open>1\<close>; the keys of a decoded JSON
      object are strings, so an integer key is never there\<close>
  "subscript_int (JList xs) i =
     (if i < length xs then Inr (xs ! i) else Inl (IndexError ''list index out of range''))"
| "subscript_int (JStr s) i =
     (if i < length s then Inr (JStr [s ! i])
      else Inl (IndexError ''string index out of range''))"
| "subscript_int (JObj kvs) i = Inl (KeyError (str_nat i))"
| "subscript_int v i =
     Inl (TypeError (quoted (type_name v) @ '' object is not subscriptable''))"

fun py_get :: "json \<Rightarrow> string \<Rightarrow> json \<Rightarrow> exn + json" where
  \<comment> \<open>\<^verbatim>\<open>v.get(k, default)\<close>: only a \<^verbatim>\<open>dict\<close> has the method\<close>
  "py_get (JObj kvs) k d = Inr (case map_of kvs k of Some x \<Rightarrow> x | None \<Rightarrow> d)"
| "py_get v k d =
     Inl (AttributeError (quoted (type_name v) @ '' object has no attribute '' @ quoted ''get''))"

fun py_values :: "json \<Rightarrow> exn + json" where
  \<comment> \<open>\<^verbatim>\<open>list(v.values())\<close>\<close>
  "py_values (JObj kvs) = Inr (JList (map snd kvs))"
| "py_values v =
     Inl (AttributeError (quoted (type_name v) @ '' object has no attribute '' @ quoted ''values''))"

fun py_keys :: "json \<Rightarrow> exn + json" where
  \<comment> \<open>\<^verbatim>\<open>list(v.keys())\<close>\<close>
  "py_keys (JObj kvs) = Inr (JList (map (\<lambda>kv. JStr (fst kv)) kvs))"
| "py_keys v =
     Inl (AttributeError (quoted (type_name v) @ '' object has no attribute '' @ quoted ''keys''))"

fun py_len :: "json \<Rightarrow> exn + nat" where
  "py_len (JList xs) = Inr (length xs)"
| "py_len (JStr s) = Inr (length s)"
| "py_len (JObj kvs) = Inr (length kvs)"
| "py_len v = Inl (TypeError (''object of type '' @ quoted (type_name v) @ '' has no len()''))"

fun py_iter :: "json \<Rightarrow> exn + json list" where
  \<comment> \<open>the items a \<^verbatim>\<open>for\<close> loop visits\<close>
  "py_iter (JList xs) = Inr xs"
| "py_iter (JStr s) = Inr (map (\<lambda>c. JStr [c]) s)"
| "py_iter (JObj kvs) = Inr (map (\<lambda>kv. JStr (fst kv)) kvs)"
| "py_iter v = Inl (TypeError (quoted (type_name v) @ '' object is not iterable''))"

section \<open>The external API clients\<close>

text \<open>
  The upstream is a parameter: \<open>H url params\<close> is the outcome of
  \<^verbatim>\<open>client.get(url, params=params)\<close>, \<^verbatim>\<open>response.raise_for_status()\<close> and
  \<^verbatim>\<open>response.json()\<close> on a fresh \<^verbatim>\<open>httpx.Client(timeout=30.0)\<close>: the decoded body, or the
  exception one of the three raises.
\<close>

type_synonym http = "string \<Rightarrow> (string \<times> json) list \<Rightarrow> exn + json"

definition rest_countries_url :: "string \<Rightarrow> string" where
  "rest_countries_url country_code = ''https://restcountries.com/v3.1/alpha/'' @ country_code"

definition fetch_rest_countries :: "http \<Rightarrow> string \<Rightarrow> exn + json" where
  "fetch_rest_countries H country_code =
     bind_exn (H (rest_countries_url country_code) []) (\<lambda>body. subscript_int body 0)"

definition world_bank_url :: "string \<Rightarrow> string \<Rightarrow> string" where
  "world_bank_url country_code indicator =
     ''https://api.worldbank.org/v2/country/'' @ country_code @ ''/indicator/'' @ indicator"

definition world_bank_params :: "int \<Rightarrow> (string \<times> json) list" where
  "world_bank_params year =
     [(''format'', JStr ''json''), (''per_page'', JInt 100)]
     @ (if year \<noteq> 0 then [(''date'', JStr (str_int year))] else [])"

definition fetch_world_bank_indicator :: "http \<Rightarrow> string \<Rightarrow> string \<Rightarrow> int \<Rightarrow> exn + json" where
  "fetch_world_bank_indicator H country_code indicator year =
     bind_exn (H (world_bank_url country_code indicator) (world_bank_params year)) (\<lambda>data.
     bind_exn (py_len data) (\<lambda>n.
       if n < 2 then Inr (JList [])
       else bind_exn (subscript_int data 1) (\<lambda>d1.
         if \<not> truthy d1 then Inr (JList []) else Inr d1)))"

section \<open>Tools\<close>

subsection \<open>\<^verbatim>\<open>get_country_info\<close>\<close>

definition country_info_try :: "http \<Rightarrow> string \<Rightarrow> exn + json" where
  \<comment> \<open>the \<^verbatim>\<open>try\<close> block; the entries of the \<^verbatim>\<open>dict\<close> are evaluated in order\<close>
  "country_info_try H country_code =
     bind_exn (fetch_rest_countries H country_code) (\<lambda>data.
     bind_exn (bind_exn (subscript_str data ''name'') (\<lambda>n. subscript_str n ''common'')) (\<lambda>name.
     bind_exn (bind_exn (py_get data ''capital'' (JList [JStr ''N/A''])) (\<lambda>c. subscript_int c 0))
       (\<lambda>capital.
     bind_exn (py_get data ''region'' (JStr ''N/A'')) (\<lambda>region.
     bind_exn (py_get data ''subregion'' (JStr ''N/A'')) (\<lambda>subregion.
     bind_exn (bind_exn (py_get data ''languages'' (JObj [])) py_values) (\<lambda>languages.
     bind_exn (bind_exn (py_get data ''currencies'' (JObj [])) py_keys) (\<lambda>currencies.
     bind_exn (py_get data ''population'' (JInt 0)) (\<lambda>population.
     bind_exn (py_get data ''flag'' (JStr [])) (\<lambda>flag.
       Inr (JObj
         [(''name'', name),
          (''capital'', capital),
          (''region'', region),
          (''subregion'', subregion),
          (''languages'', languages),
          (''currencies'', currencies),
          (''population'', population),
          (''flag'', flag)]))))))))))"

fun country_info_except :: "string \<Rightarrow> exn \<Rightarrow> json" where
  \<comment> \<open>the \<^verbatim>\<open>except\<close> clauses, in their order\<close>
  "country_info_except country_code (HTTPStatusError status msg) =
     (if status = 404 then error_payload (''Country code '' @ quoted country_code @ '' not found'')
      else error_payload (''API error ('' @ str_nat status @ ''): '' @ msg))"
| "country_info_except country_code (TimeoutException msg) =
     error_payload ''Request timed out, please try again''"
| "country_info_except country_code (RequestError msg) =
     error_payload (''Network error: '' @ msg)"
| "country_info_except country_code e =
     error_payload (''Unexpected error: '' @ str_exn e)"

definition get_country_info :: "http \<Rightarrow> string \<Rightarrow> exn + json" where
  "get_country_info H country_code =
     (case country_info_try H country_code of
        Inr info \<Rightarrow> Inr info
      | Inl e \<Rightarrow> Inr (country_info_except country_code e))"

subsection \<open>\<^verbatim>\<open>get_live_indicator\<close>\<close>

definition observation :: "json \<Rightarrow> string \<Rightarrow> string \<Rightarrow> int \<Rightarrow> exn + json" where
  \<comment> \<open>the \<^verbatim>\<open>dict\<close> returned on a match\<close>
  "observation record country_code indicator year =
     bind_exn (bind_exn (py_get record ''country'' (JObj []))
                 (\<lambda>c. py_get c ''value'' (JStr ''N/A''))) (\<lambda>country_name.
     bind_exn (bind_exn (py_get record ''indicator'' (JObj []))
                 (\<lambda>i. py_get i ''value'' (JStr ''N/A''))) (\<lambda>indicator_name.
     bind_exn (py_get record ''value'' JNull) (\<lambda>v.
       Inr (JObj
         [(''country'', JStr country_code),
          (''country_name'', country_name),
          (''indicator'', JStr indicator),
          (''indicator_name'', indicator_name),
          (''year'', JInt year),
          (''value'', v)]))))"

fun scan_records :: "json list \<Rightarrow> string \<Rightarrow> string \<Rightarrow> int \<Rightarrow> exn + json" where
  \<comment> \<open>the \<^verbatim>\<open>for\<close> loop and the two statements after it\<close>
  "scan_records [] country_code indicator year =
     Inr (error_payload
       (''No data found for '' @ country_code @ '' / '' @ indicator @ '' in '' @ str_int year))"
| "scan_records (record # records) country_code indicator year =
     (case py_get record ''date'' JNull of
        Inl e \<Rightarrow> Inl e
      | Inr d \<Rightarrow>
          if d = JStr (str_int year) then observation record country_code indicator year
          else scan_records records country_code indicator year)"

definition live_indicator_try :: "http \<Rightarrow> string \<Rightarrow> string \<Rightarrow> int \<Rightarrow> exn + json" where
  "live_indicator_try H country_code indicator year =
     bind_exn (fetch_world_bank_indicator H country_code indicator year) (\<lambda>records.
       if \<not> truthy records then
         Inr (error_payload
           (''No data available for '' @ country_code @ '' / '' @ indicator @ '' in ''
            @ str_int year))
       else bind_exn (py_iter records) (\<lambda>rs. scan_records rs country_code indicator year))"

fun live_indicator_except :: "string \<Rightarrow> string \<Rightarrow> exn \<Rightarrow> json" where
  "live_indicator_except country_code indicator (HTTPStatusError status msg) =
     (if status = 404 then
        error_payload (''Country '' @ quoted country_code @ '' or indicator ''
                       @ quoted indicator @ '' not found'')
      else error_payload (''API error ('' @ str_nat status @ ''): '' @ msg))"
| "live_indicator_except country_code indicator (TimeoutException msg) =
     error_payload ''Request timed out, please try again''"
| "live_indicator_except country_code indicator (RequestError msg) =
     error_payload (''Network error: '' @ msg)"
| "live_indicator_except country_code indicator e =
     error_payload (''Unexpected error: '' @ str_exn e)"

definition get_live_indicator :: "http \<Rightarrow> string \<Rightarrow> string \<Rightarrow> int \<Rightarrow> exn + json" where
  "get_live_indicator H country_code indicator year =
     (case live_indicator_try H country_code indicator year of
        Inr r \<Rightarrow> Inr r
      | Inl e \<Rightarrow> Inr (live_indicator_except country_code indicator e))"

subsection \<open>The outcomes of the \<^verbatim>\<open>except\<close> clauses\<close>

fun except_clause :: "exn \<Rightarrow> nat" where
  \<comment> \<open>where an exception lands in the \<^verbatim>\<open>except\<close> clauses the two tools share: the
      \<open>404\<close> branch of the first clause, its other branch, the second, the third or the
      last clause\<close>
  "except_clause (HTTPStatusError status msg) = (if status = 404 then 0 else 1)"
| "except_clause (TimeoutException msg) = 2"
| "except_clause (RequestError msg) = 3"
| "except_clause e = 4"

subsection \<open>\<^verbatim>\<open>compare_countries\<close>\<close>

text \<open>
  The loop calls \<^verbatim>\<open>get_live_indicator\<close> inside its own \<^verbatim>\<open>try\<close>. The callee is the
  parameter \<open>lookup\<close> of \<open>compare_countries_with\<close>, so that the \<^verbatim>\<open>except\<close> branch is
  described for a callee that does raise; \<open>compare_countries\<close> is the tool itself.
\<close>

definition partial_record :: "string \<Rightarrow> string \<Rightarrow> int \<Rightarrow> exn \<Rightarrow> json" where
  "partial_record code indicator year e =
     JObj
       [(''country'', JStr code),
        (''indicator'', JStr indicator),
        (''year'', JInt year),
        (''value'', JNull),
        (''error'', JStr (str_exn e))]"

fun compare_loop ::
  "(string \<Rightarrow> string \<Rightarrow> int \<Rightarrow> exn + json) \<Rightarrow> string list \<Rightarrow> string \<Rightarrow> int \<Rightarrow> json list
   \<Rightarrow> json list" where
  "compare_loop lookup [] indicator year results = results"
| "compare_loop lookup (code # codes) indicator year results =
     (case lookup code indicator year of
        Inr result \<Rightarrow> compare_loop lookup codes indicator year (results @ [result])
      | Inl e \<Rightarrow>
          compare_loop lookup codes indicator year
            (results @ [partial_record code indicator year e]))"

definition compare_countries_with ::
  "(string \<Rightarrow> string \<Rightarrow> int \<Rightarrow> exn + json) \<Rightarrow> string list \<Rightarrow> string \<Rightarrow> int
   \<Rightarrow> exn + json list" where
  "compare_countries_with lookup country_codes indicator year =
     (if country_codes = [] then Inr [error_payload ''No country codes provided'']
      else Inr (compare_loop lookup country_codes indicator year []))"

definition compare_countries :: "http \<Rightarrow> string list \<Rightarrow> string \<Rightarrow> int \<Rightarrow> exn + json list" where
  "compare_countries H country_codes indicator year =
     compare_countries_with (get_live_indicator H) country_codes indicator year"

section \<open>The local store\<close>

text \<open>
  \<^verbatim>\<open>pl.read_csv\<close> yields a data frame: named, typed columns and rows with one cell
  per column. \<^verbatim>\<open>read_csv\<close> infers one of four types for a column. The store is the
  path \<^verbatim>\<open>DATA_FILE\<close> and what is there: nothing, or a file on which \<^verbatim>\<open>read_csv\<close> returns
  a frame or raises.
\<close>

datatype dtype = DInt64 | DFloat64 | DString | DBoolean

datatype cell = NullCell | IntCell int | FloatCell real | StrCell string | BoolCell bool

record frame =
  schema :: "(string \<times> dtype) list"
  rows :: "cell list list"

record store =
  data_file :: string
  content :: "(exn + frame) option"

fun str_dtype :: "dtype \<Rightarrow> string" where
  "str_dtype DInt64 = ''Int64''"
| "str_dtype DFloat64 = ''Float64''"
| "str_dtype DString = ''String''"
| "str_dtype DBoolean = ''Boolean''"

fun cell_json :: "cell \<Rightarrow> json" where
  "cell_json NullCell = JNull"
| "cell_json (IntCell i) = JInt i"
| "cell_json (FloatCell x) = JFloat x"
| "cell_json (StrCell s) = JStr s"
| "cell_json (BoolCell b) = JBool b"

definition load_data :: "store \<Rightarrow> exn + frame" where
  "load_data st =
     (case content st of
        None \<Rightarrow> Inl (FileNotFoundError (''Data file not found: '' @ data_file st))
      | Some r \<Rightarrow> r)"

subsection \<open>The operations of polars that the resources use\<close>

definition columns :: "frame \<Rightarrow> string list" where
  "columns df = map fst (schema df)"

definition select :: "frame \<Rightarrow> string list \<Rightarrow> exn + frame" where
  \<comment> \<open>\<^verbatim>\<open>df.select(names)\<close>: the named columns, in the order asked for\<close>
  "select df names =
     (case find (\<lambda>n. map_of (schema df) n = None) names of
        Some missing \<Rightarrow> Inl (OtherException (''unable to find column '' @ missing))
      | None \<Rightarrow>
          Inr \<lparr>schema = List.map_filter (\<lambda>n. map_option (Pair n) (map_of (schema df) n)) names,
               rows = map (\<lambda>r. List.map_filter (map_of (zip (columns df) r)) names) (rows df)\<rparr>)"

definition unique :: "(cell list list \<Rightarrow> cell list list) \<Rightarrow> frame \<Rightarrow> frame" where
  \<comment> \<open>\<^verbatim>\<open>df.unique()\<close> with \<^verbatim>\<open>maintain_order\<close> left at its default \<^verbatim>\<open>False\<close>: every distinct
      row once, in an order polars does not fix; \<open>arrange\<close> is the order of this call\<close>
  "unique arrange df = df\<lparr>rows := arrange (remdups (rows df))\<rparr>"

definition arrangement :: "(cell list list \<Rightarrow> cell list list) \<Rightarrow> bool" where
  \<comment> \<open>what \<^verbatim>\<open>unique\<close> may do to the order: permute the rows, nothing else\<close>
  "arrangement arrange = (\<forall>rs. mset (arrange rs) = mset rs)"

definition filter_eq :: "frame \<Rightarrow> string \<Rightarrow> string \<Rightarrow> exn + frame" where
  \<comment> \<open>\<^verbatim>\<open>df.filter(pl.col(name) == s)\<close>: on a string column, the rows whose cell is the
      string \<open>s\<close> (a null cell compares to null and its row is dropped); on a Boolean
      column no row is kept; a numeric column is not compared with a string\<close>
  "filter_eq df name s =
     (case map_of (schema df) name of
        None \<Rightarrow> Inl (OtherException (''unable to find column '' @ name))
      | Some DString \<Rightarrow>
          Inr (df\<lparr>rows := filter (\<lambda>r. map_of (zip (columns df) r) name = Some (StrCell s))
                               (rows df)\<rparr>)
      | Some DBoolean \<Rightarrow> Inr (df\<lparr>rows := []\<rparr>)
      | Some DInt64 \<Rightarrow>
          Inl (OtherException ''cannot compare string with numeric type (i64)'')
      | Some DFloat64 \<Rightarrow>
          Inl (OtherException ''cannot compare string with numeric type (f64)''))"

definition is_empty :: "frame \<Rightarrow> bool" where
  "is_empty df = (rows df = [])"

definition row_json :: "string list \<Rightarrow> cell list \<Rightarrow> json" where
  "row_json names r = JObj (zip names (map cell_json r))"

definition write_json :: "frame \<Rightarrow> json" where
  \<comment> \<open>the document \<^verbatim>\<open>df.write_json()\<close> serialises: an array with one object per row\<close>
  "write_json df = JList (map (row_json (columns df)) (rows df))"

section \<open>Resources\<close>

text \<open>
  A resource returns JSON text. The model returns the document that \<^verbatim>\<open>json.dumps\<close> or
  \<^verbatim>\<open>write_json\<close> serialises; \<open>Inl\<close> is an exception that leaves the handler.
  \<^verbatim>\<open>str.upper\<close> is a built-in that follows the Unicode case tables and may change the
  length of a string, so the indicators resource takes it as the parameter \<open>upper\<close>, and
  what is proved about the resource holds for every such function.
\<close>

definition get_schema :: "store \<Rightarrow> exn + json" where
  "get_schema st =
     bind_exn (load_data st) (\<lambda>df.
       Inr (JObj (map (\<lambda>(col, t). (col, JStr (str_dtype t))) (schema df))))"

fun countries_except :: "exn \<Rightarrow> json" where
  "countries_except (FileNotFoundError msg) = error_payload msg"
| "countries_except e = error_payload (''Failed to load countries: '' @ str_exn e)"

definition get_countries :: "(cell list list \<Rightarrow> cell list list) \<Rightarrow> store \<Rightarrow> exn + json" where
  "get_countries arrange st =
     (case bind_exn (load_data st) (\<lambda>df.
             bind_exn (select df [''countryiso3code'', ''country'']) (\<lambda>selected.
               Inr (write_json (unique arrange selected)))) of
        Inr doc \<Rightarrow> Inr doc
      | Inl e \<Rightarrow> Inr (countries_except e))"

fun indicators_except :: "exn \<Rightarrow> json" where
  "indicators_except (FileNotFoundError msg) = error_payload msg"
| "indicators_except e = error_payload (''Failed to fetch indicators: '' @ str_exn e)"

definition get_country_indicators :: "(string \<Rightarrow> string) \<Rightarrow> store \<Rightarrow> string \<Rightarrow> exn + json" where
  \<comment> \<open>\<open>upper\<close> is \<^verbatim>\<open>str.upper\<close>, which maps by the Unicode case tables of the interpreter\<close>
  "get_country_indicators upper st country_code =
     (case bind_exn (load_data st) (\<lambda>df.
             bind_exn (filter_eq df ''countryiso3code'' (upper country_code)) (\<lambda>filtered.
               if is_empty filtered then
                 Inr (error_payload
                   (''Country code '' @ quoted country_code @ '' not found in local dataset''))
               else Inr (write_json filtered))) of
        Inr doc \<Rightarrow> Inr doc
      | Inl e \<Rightarrow> Inr (indicators_except e))"

section \<open>Properties of the tools\<close>

subsection \<open>\<^verbatim>\<open>compare_countries\<close>\<close>

lemma compare_loop_map:
  "compare_loop lookup codes indicator year acc =
     acc @ map (\<lambda>code. case lookup code indicator year of
                          Inr r \<Rightarrow> r
                        | Inl e \<Rightarrow> partial_record code indicator year e) codes"
  by (induction codes arbitrary: acc) (simp_all split: sum.splits)

lemma get_live_indicator_returns: "\<exists>r. get_live_indicator H c i y = Inr r"
  by (simp add: get_live_indicator_def split: sum.splits)

lemma get_live_indicator_no_raise: "get_live_indicator H c i y \<noteq> Inl e"
  by (simp add: get_live_indicator_def split: sum.splits)

text \<open>
  C1. For a non-empty list of country codes, \<^verbatim>\<open>compare_countries\<close> returns a list as
  long as its input, and the entry at position \<open>i\<close> comes from the code at position
  \<open>i\<close>: it is what the lookup returned for that code, or, when the lookup raised, the
  partial record with \<^verbatim>\<open>country\<close>, \<^verbatim>\<open>indicator\<close>, \<^verbatim>\<open>year\<close>, \<^verbatim>\<open>value: null\<close> and \<^verbatim>\<open>error\<close>.
  An exception at one code leaves the entries of the other codes as they are. The
  first part holds for every callee, the second is the tool with \<^verbatim>\<open>get_live_indicator\<close>.
\<close>

theorem compare_countries_entry_per_code:
  assumes "country_codes \<noteq> []"
  shows "(\<exists>results.
            compare_countries_with lookup country_codes indicator year = Inr results
            \<and> length results = length country_codes
            \<and> (\<forall>i < length country_codes.
                  results ! i =
                    (case lookup (country_codes ! i) indicator year of
                       Inr r \<Rightarrow> r
                     | Inl e \<Rightarrow>
                         JObj [(''country'', JStr (country_codes ! i)),
                               (''indicator'', JStr indicator),
                               (''year'', JInt year),
                               (''value'', JNull),
                               (''error'', JStr (str_exn e))])))
       \<and> (\<exists>results.
            compare_countries H country_codes indicator year = Inr results
            \<and> length results = length country_codes
            \<and> (\<forall>i < length country_codes.
                  get_live_indicator H (country_codes ! i) indicator year = Inr (results ! i)))"
proof (intro conjI)
  show "\<exists>results.
            compare_countries_with lookup country_codes indicator year = Inr results
            \<and> length results = length country_codes
            \<and> (\<forall>i < length country_codes.
                  results ! i =
                    (case lookup (country_codes ! i) indicator year of
                       Inr r \<Rightarrow> r
                     | Inl e \<Rightarrow>
                         JObj [(''country'', JStr (country_codes ! i)),
                               (''indicator'', JStr indicator),
                               (''year'', JInt year),
                               (''value'', JNull),
                               (''error'', JStr (str_exn e))]))"
    using assms
    by (simp add: compare_countries_with_def compare_loop_map partial_record_def
        split: sum.splits)
next
  show "\<exists>results.
            compare_countries H country_codes indicator year = Inr results
            \<and> length results = length country_codes
            \<and> (\<forall>i < length country_codes.
                  get_live_indicator H (country_codes ! i) indicator year = Inr (results ! i))"
    using assms
    by (simp add: compare_countries_def compare_countries_with_def compare_loop_map
        get_live_indicator_no_raise split: sum.splits)
qed

theorem compare_countries_entry_per_code_witness:
  "[''USA'', ''XYZ''] \<noteq> ([] :: string list)
   \<and> compare_countries_with
        (\<lambda>code indicator year.
           if code = ''USA'' then Inr (JObj [(''value'', JInt 7)])
           else Inl (OtherException ''boom''))
        [''USA'', ''XYZ''] ''SP.POP.TOTL'' 2022
      = Inr [JObj [(''value'', JInt 7)],
             JObj [(''country'', JStr ''XYZ''),
                   (''indicator'', JStr ''SP.POP.TOTL''),
                   (''year'', JInt 2022),
                   (''value'', JNull),
                   (''error'', JStr ''boom'')]]"
proof -
  have h: "[''USA'', ''XYZ''] \<noteq> ([] :: string list)" by simp
  show ?thesis
    using h compare_countries_entry_per_code
      [OF h, of "\<lambda>code indicator year.
           if code = ''USA'' then Inr (JObj [(''value'', JInt 7)])
           else Inl (OtherException ''boom'')" "''SP.POP.TOTL''" 2022 "\<lambda>u p. Inl (OtherException [])"]
    by (simp add: compare_countries_with_def partial_record_def)
qed

text \<open>
  C2. On the empty list \<^verbatim>\<open>compare_countries\<close> returns the one-element list
  \<^verbatim>\<open>[{"error": "No country codes provided"}]\<close>, whatever the lookup is: the lookup is
  not called.
\<close>

theorem compare_countries_empty:
  "compare_countries_with lookup [] indicator year
     = Inr [JObj [(''error'', JStr ''No country codes provided'')]]
   \<and> compare_countries H [] indicator year
     = Inr [JObj [(''error'', JStr ''No country codes provided'')]]"
  by (simp add: compare_countries_def compare_countries_with_def error_payload_def)

subsection \<open>Failures of the outbound call\<close>

lemma get_country_info_returns: "\<exists>r. get_country_info H c = Inr r"
  by (simp add: get_country_info_def split: sum.splits)

lemma country_info_failure:
  "H (rest_countries_url c) [] = Inl e \<Longrightarrow> get_country_info H c = Inr (country_info_except c e)"
  by (simp add: get_country_info_def country_info_try_def fetch_rest_countries_def bind_exn_def)

lemma live_indicator_failure:
  "H (world_bank_url c i) (world_bank_params y) = Inl e
   \<Longrightarrow> get_live_indicator H c i y = Inr (live_indicator_except c i e)"
  by (simp add: get_live_indicator_def live_indicator_try_def fetch_world_bank_indicator_def
      bind_exn_def)

lemma country_info_except_other:
  "except_clause e = 4 \<Longrightarrow>
   country_info_except c e = error_payload (''Unexpected error: '' @ str_exn e)"
  by (cases e) (simp_all split: if_splits)

lemma live_indicator_except_other:
  "except_clause e = 4 \<Longrightarrow>
   live_indicator_except c i e = error_payload (''Unexpected error: '' @ str_exn e)"
  by (cases e) (simp_all split: if_splits)

lemma country_info_except_distinct:
  "except_clause e \<noteq> except_clause e' \<Longrightarrow> country_info_except c e \<noteq> country_info_except c e'"
  by (cases e; cases e') (simp_all add: error_payload_def split: if_splits)

lemma live_indicator_except_distinct:
  "except_clause e \<noteq> except_clause e' \<Longrightarrow>
   live_indicator_except c i e \<noteq> live_indicator_except c i e'"
  by (cases e; cases e') (simp_all add: error_payload_def split: if_splits)

text \<open>
  C6. Whatever the upstream does, \<^verbatim>\<open>get_country_info\<close> and \<^verbatim>\<open>get_live_indicator\<close> return
  and do not raise. When their one outbound call raises, the result is an error
  payload fixed by the kind of failure: status 404 gives a "not found" message, any
  other status \<open>s\<close> gives \<^verbatim>\<open>API error (s): ...\<close>, a timeout gives \<^verbatim>\<open>Request timed out\<close>, any
  other request error gives \<^verbatim>\<open>Network error: ...\<close>, and every other exception gives
  \<^verbatim>\<open>Unexpected error: ...\<close>. Failures of two different kinds give different payloads.
\<close>

theorem http_failures_become_error_payloads:
  "(H (rest_countries_url cc) [] = Inl (HTTPStatusError 404 msg) \<longrightarrow>
      get_country_info H cc
        = Inr (JObj [(''error'', JStr (''Country code '' @ quoted cc @ '' not found''))]))
   \<and> (H (rest_countries_url cc) [] = Inl (HTTPStatusError status msg) \<and> status \<noteq> 404 \<longrightarrow>
      get_country_info H cc
        = Inr (JObj [(''error'', JStr (''API error ('' @ str_nat status @ ''): '' @ msg))]))
   \<and> (H (rest_countries_url cc) [] = Inl (TimeoutException msg) \<longrightarrow>
      get_country_info H cc
        = Inr (JObj [(''error'', JStr ''Request timed out, please try again'')]))
   \<and> (H (rest_countries_url cc) [] = Inl (RequestError msg) \<longrightarrow>
      get_country_info H cc = Inr (JObj [(''error'', JStr (''Network error: '' @ msg))]))
   \<and> (H (rest_countries_url cc) [] = Inl e \<and> except_clause e = 4 \<longrightarrow>
      get_country_info H cc
        = Inr (JObj [(''error'', JStr (''Unexpected error: '' @ str_exn e))]))
   \<and> (H (rest_countries_url cc) [] = Inl e \<and> H' (rest_countries_url cc) [] = Inl e'
      \<and> except_clause e \<noteq> except_clause e' \<longrightarrow>
      get_country_info H cc \<noteq> get_country_info H' cc)
   \<and> (\<exists>r. get_country_info H cc = Inr r)
   \<and> (H (world_bank_url cc ind) (world_bank_params year) = Inl (HTTPStatusError 404 msg) \<longrightarrow>
      get_live_indicator H cc ind year
        = Inr (JObj [(''error'',
                 JStr (''Country '' @ quoted cc @ '' or indicator '' @ quoted ind
                       @ '' not found''))]))
   \<and> (H (world_bank_url cc ind) (world_bank_params year) = Inl (HTTPStatusError status msg)
      \<and> status \<noteq> 404 \<longrightarrow>
      get_live_indicator H cc ind year
        = Inr (JObj [(''error'', JStr (''API error ('' @ str_nat status @ ''): '' @ msg))]))
   \<and> (H (world_bank_url cc ind) (world_bank_params year) = Inl (TimeoutException msg) \<longrightarrow>
      get_live_indicator H cc ind year
        = Inr (JObj [(''error'', JStr ''Request timed out, please try again'')]))
   \<and> (H (world_bank_url cc ind) (world_bank_params year) = Inl (RequestError msg) \<longrightarrow>
      get_live_indicator H cc ind year
        = Inr (JObj [(''error'', JStr (''Network error: '' @ msg))]))
   \<and> (H (world_bank_url cc ind) (world_bank_params year) = Inl e \<and> except_clause e = 4 \<longrightarrow>
      get_live_indicator H cc ind year
        = Inr (JObj [(''error'', JStr (''Unexpected error: '' @ str_exn e))]))
   \<and> (H (world_bank_url cc ind) (world_bank_params year) = Inl e
      \<and> H' (world_bank_url cc ind) (world_bank_params year) = Inl e'
      \<and> except_clause e \<noteq> except_clause e' \<longrightarrow>
      get_live_indicator H cc ind year \<noteq> get_live_indicator H' cc ind year)
   \<and> (\<exists>r. get_live_indicator H cc ind year = Inr r)"
proof -
  have i: "\<And>x. H (rest_countries_url cc) [] = Inl x \<Longrightarrow>
             get_country_info H cc = Inr (country_info_except cc x)"
    by (rule country_info_failure)
  have l: "\<And>x. H (world_bank_url cc ind) (world_bank_params year) = Inl x \<Longrightarrow>
             get_live_indicator H cc ind year = Inr (live_indicator_except cc ind x)"
    by (rule live_indicator_failure)
  have i': "H' (rest_countries_url cc) [] = Inl e' \<Longrightarrow>
             get_country_info H' cc = Inr (country_info_except cc e')"
    by (rule country_info_failure)
  have l': "H' (world_bank_url cc ind) (world_bank_params year) = Inl e' \<Longrightarrow>
             get_live_indicator H' cc ind year = Inr (live_indicator_except cc ind e')"
    by (rule live_indicator_failure)
  show ?thesis
  proof (intro conjI impI)
    show "\<exists>r. get_country_info H cc = Inr r"
      by (simp add: get_country_info_def split: sum.splits)
    show "\<exists>r. get_live_indicator H cc ind year = Inr r"
      by (simp add: get_live_indicator_def split: sum.splits)
  qed (auto simp: i l i' l' error_payload_def country_info_except_other
        live_indicator_except_other country_info_except_distinct
        live_indicator_except_distinct)
qed

theorem http_failures_become_error_payloads_witness:
  "get_country_info (\<lambda>url params. Inl (HTTPStatusError 404 ''Not Found'')) ''ZZZ''
     = Inr (JObj [(''error'', JStr ''Country code 'ZZZ' not found'')])
   \<and> get_country_info (\<lambda>url params. Inl (HTTPStatusError 503 ''Service Unavailable'')) ''USA''
     = Inr (JObj [(''error'', JStr ''API error (503): Service Unavailable'')])
   \<and> get_live_indicator (\<lambda>url params. Inl (TimeoutException ''read timeout''))
        ''USA'' ''SP.POP.TOTL'' 2022
     = Inr (JObj [(''error'', JStr ''Request timed out, please try again'')])
   \<and> get_live_indicator (\<lambda>url params. Inl (RequestError ''connection refused''))
        ''USA'' ''SP.POP.TOTL'' 2022
     = Inr (JObj [(''error'', JStr ''Network error: connection refused'')])
   \<and> get_live_indicator (\<lambda>url params. Inl (OtherException ''Expecting value''))
        ''USA'' ''SP.POP.TOTL'' 2022
     = Inr (JObj [(''error'', JStr ''Unexpected error: Expecting value'')])"
  using
    http_failures_become_error_payloads
      [where H = "\<lambda>url params. Inl (HTTPStatusError 404 ''Not Found'')" and cc = "''ZZZ''"
         and msg = "''Not Found''"]
    http_failures_become_error_payloads
      [where H = "\<lambda>url params. Inl (HTTPStatusError 503 ''Service Unavailable'')"
         and cc = "''USA''" and msg = "''Service Unavailable''" and status = 503]
    http_failures_become_error_payloads
      [where H = "\<lambda>url params. Inl (TimeoutException ''read timeout'')" and cc = "''USA''"
         and ind = "''SP.POP.TOTL''" and year = 2022 and msg = "''read timeout''"]
    http_failures_become_error_payloads
      [where H = "\<lambda>url params. Inl (RequestError ''connection refused'')" and cc = "''USA''"
         and ind = "''SP.POP.TOTL''" and year = 2022 and msg = "''connection refused''"]
    http_failures_become_error_payloads
      [where H = "\<lambda>url params. Inl (OtherException ''Expecting value'')" and cc = "''USA''"
         and ind = "''SP.POP.TOTL''" and year = 2022 and e = "OtherException ''Expecting value''"]
  by (simp add: quoted_def str_nat.simps)

subsection \<open>\<^verbatim>\<open>get_live_indicator\<close> on a successful call\<close>

lemma scan_records_skip:
  assumes "\<forall>p \<in> set pre. \<exists>kvs. p = JObj kvs \<and> map_of kvs ''date'' \<noteq> Some (JStr (str_int year))"
  shows "scan_records (pre @ rest) cc ind year = scan_records rest cc ind year"
  using assms
proof (induction pre)
  case Nil
  then show ?case by simp
next
  case (Cons p pre)
  then obtain kvs where p: "p = JObj kvs" "map_of kvs ''date'' \<noteq> Some (JStr (str_int year))"
    by auto
  from Cons have "scan_records (pre @ rest) cc ind year = scan_records rest cc ind year"
    by simp
  with p show ?case
    by (cases "map_of kvs ''date''") simp_all
qed

lemma fetch_envelope:
  assumes "H (world_bank_url cc ind) (world_bank_params year) = Inr (JList envelope)"
  shows "fetch_world_bank_indicator H cc ind year =
           Inr (if length envelope < 2 \<or> \<not> truthy (envelope ! 1) then JList [] else envelope ! 1)"
  using assms by (simp add: fetch_world_bank_indicator_def bind_exn_def)

text \<open>
  C7. When the upstream call succeeds with an envelope (a JSON array),
  \<^verbatim>\<open>get_live_indicator\<close> has three outcomes. If the envelope has no second element or that
  element is empty, the result is the \<^verbatim>\<open>No data available\<close> payload. Otherwise the records
  are scanned in order: at the first record whose \<^verbatim>\<open>date\<close> is the string of the requested
  year the result is the observation built from that record, with \<^verbatim>\<open>value\<close> as the record
  has it, \<^verbatim>\<open>null\<close> included; if no record has that date the result is the
  \<^verbatim>\<open>No data found\<close> payload, a different message. Records are JSON objects, and the
  \<^verbatim>\<open>country\<close> and \<^verbatim>\<open>indicator\<close> fields of the matching record are absent or objects.
\<close>

theorem live_indicator_three_way:
  assumes "H (world_bank_url cc ind) (world_bank_params year) = Inr (JList envelope)"
  shows
    "(length envelope < 2 \<or> \<not> truthy (envelope ! 1) \<longrightarrow>
        get_live_indicator H cc ind year =
          Inr (JObj [(''error'',
                 JStr (''No data available for '' @ cc @ '' / '' @ ind @ '' in '' @ str_int year))]))
     \<and> (2 \<le> length envelope \<and> envelope ! 1 = JList (pre @ JObj r # post)
        \<and> (\<forall>p \<in> set pre. \<exists>kvs. p = JObj kvs \<and> map_of kvs ''date'' \<noteq> Some (JStr (str_int year)))
        \<and> map_of r ''date'' = Some (JStr (str_int year))
        \<and> (map_of r ''country'' = None \<and> country_name = JStr ''N/A''
            \<or> (\<exists>c. map_of r ''country'' = Some (JObj c)
                  \<and> country_name = (case map_of c ''value'' of Some v \<Rightarrow> v | None \<Rightarrow> JStr ''N/A'')))
        \<and> (map_of r ''indicator'' = None \<and> indicator_name = JStr ''N/A''
            \<or> (\<exists>c. map_of r ''indicator'' = Some (JObj c)
                  \<and> indicator_name = (case map_of c ''value'' of Some v \<Rightarrow> v | None \<Rightarrow> JStr ''N/A'')))
        \<longrightarrow>
        get_live_indicator H cc ind year =
          Inr (JObj [(''country'', JStr cc),
                     (''country_name'', country_name),
                     (''indicator'', JStr ind),
                     (''indicator_name'', indicator_name),
                     (''year'', JInt year),
                     (''value'', case map_of r ''value'' of Some v \<Rightarrow> v | None \<Rightarrow> JNull)]))
     \<and> (2 \<le> length envelope \<and> envelope ! 1 = JList records \<and> records \<noteq> []
        \<and> (\<forall>p \<in> set records. \<exists>kvs. p = JObj kvs \<and> map_of kvs ''date'' \<noteq> Some (JStr (str_int year)))
        \<longrightarrow>
        get_live_indicator H cc ind year =
          Inr (JObj [(''error'',
                 JStr (''No data found for '' @ cc @ '' / '' @ ind @ '' in '' @ str_int year))]))"
proof (intro conjI impI)
  assume "length envelope < 2 \<or> \<not> truthy (envelope ! 1)"
  then show "get_live_indicator H cc ind year =
          Inr (JObj [(''error'',
                 JStr (''No data available for '' @ cc @ '' / '' @ ind @ '' in '' @ str_int year))])"
    using fetch_envelope [of H cc ind year envelope, OF assms]
    by (simp add: get_live_indicator_def live_indicator_try_def bind_exn_def error_payload_def)
next
  assume a: "2 \<le> length envelope \<and> envelope ! 1 = JList (pre @ JObj r # post)
        \<and> (\<forall>p \<in> set pre. \<exists>kvs. p = JObj kvs \<and> map_of kvs ''date'' \<noteq> Some (JStr (str_int year)))
        \<and> map_of r ''date'' = Some (JStr (str_int year))
        \<and> (map_of r ''country'' = None \<and> country_name = JStr ''N/A''
            \<or> (\<exists>c. map_of r ''country'' = Some (JObj c)
                  \<and> country_name = (case map_of c ''value'' of Some v \<Rightarrow> v | None \<Rightarrow> JStr ''N/A'')))
        \<and> (map_of r ''indicator'' = None \<and> indicator_name = JStr ''N/A''
            \<or> (\<exists>c. map_of r ''indicator'' = Some (JObj c)
                  \<and> indicator_name = (case map_of c ''value'' of Some v \<Rightarrow> v | None \<Rightarrow> JStr ''N/A'')))"
  then have f: "fetch_world_bank_indicator H cc ind year = Inr (JList (pre @ JObj r # post))"
    using fetch_envelope [of H cc ind year envelope, OF assms] by simp
  from a have s: "scan_records (pre @ JObj r # post) cc ind year
                  = scan_records (JObj r # post) cc ind year"
    by (intro scan_records_skip) simp
  from a have o: "observation (JObj r) cc ind year =
          Inr (JObj [(''country'', JStr cc),
                     (''country_name'', country_name),
                     (''indicator'', JStr ind),
                     (''indicator_name'', indicator_name),
                     (''year'', JInt year),
                     (''value'', case map_of r ''value'' of Some v \<Rightarrow> v | None \<Rightarrow> JNull)])"
    by (auto simp: observation_def bind_exn_def)
  from a f s o show "get_live_indicator H cc ind year =
          Inr (JObj [(''country'', JStr cc),
                     (''country_name'', country_name),
                     (''indicator'', JStr ind),
                     (''indicator_name'', indicator_name),
                     (''year'', JInt year),
                     (''value'', case map_of r ''value'' of Some v \<Rightarrow> v | None \<Rightarrow> JNull)])"
    by (simp add: get_live_indicator_def live_indicator_try_def bind_exn_def)
next
  assume a: "2 \<le> length envelope \<and> envelope ! 1 = JList records \<and> records \<noteq> []
        \<and> (\<forall>p \<in> set records. \<exists>kvs. p = JObj kvs \<and> map_of kvs ''date'' \<noteq> Some (JStr (str_int year)))"
  then have f: "fetch_world_bank_indicator H cc ind year = Inr (JList records)"
    using fetch_envelope [of H cc ind year envelope, OF assms] by simp
  from a have "scan_records (records @ []) cc ind year = scan_records [] cc ind year"
    by (intro scan_records_skip) simp
  with a f show "get_live_indicator H cc ind year =
          Inr (JObj [(''error'',
                 JStr (''No data found for '' @ cc @ '' / '' @ ind @ '' in '' @ str_int year))])"
    by (simp add: get_live_indicator_def live_indicator_try_def bind_exn_def error_payload_def)
qed

theorem live_indicator_three_way_witness:
  "get_live_indicator
     (\<lambda>url params. Inr (JList
        [JObj [(''page'', JInt 1)],
         JList [JObj [(''date'', JStr ''2021''), (''value'', JInt 5)],
                JObj [(''country'', JObj [(''id'', JStr ''US''), (''value'', JStr ''United States'')]),
                      (''date'', JStr ''2022''), (''value'', JNull)]]]))
     ''USA'' ''SE.ADT.LITR.ZS'' 2022
   = Inr (JObj [(''country'', JStr ''USA''),
                (''country_name'', JStr ''United States''),
                (''indicator'', JStr ''SE.ADT.LITR.ZS''),
                (''indicator_name'', JStr ''N/A''),
                (''year'', JInt 2022),
                (''value'', JNull)])
   \<and> get_live_indicator (\<lambda>url params. Inr (JList [JObj [(''message'', JStr ''none'')]]))
       ''USA'' ''SE.ADT.LITR.ZS'' 2022
     = Inr (JObj [(''error'', JStr ''No data available for USA / SE.ADT.LITR.ZS in 2022'')])
   \<and> get_live_indicator
       (\<lambda>url params. Inr (JList
          [JObj [(''page'', JInt 1)], JList [JObj [(''date'', JStr ''2021''), (''value'', JInt 5)]]]))
       ''USA'' ''SE.ADT.LITR.ZS'' 2022
     = Inr (JObj [(''error'', JStr ''No data found for USA / SE.ADT.LITR.ZS in 2022'')])"
  using
    live_indicator_three_way
      [where H = "\<lambda>url params. Inr (JList
        [JObj [(''page'', JInt 1)],
         JList [JObj [(''date'', JStr ''2021''), (''value'', JInt 5)],
                JObj [(''country'', JObj [(''id'', JStr ''US''), (''value'', JStr ''United States'')]),
                      (''date'', JStr ''2022''), (''value'', JNull)]]])"
         and cc = "''USA''" and ind = "''SE.ADT.LITR.ZS''" and year = 2022
         and envelope = "[JObj [(''page'', JInt 1)],
         JList [JObj [(''date'', JStr ''2021''), (''value'', JInt 5)],
                JObj [(''country'', JObj [(''id'', JStr ''US''), (''value'', JStr ''United States'')]),
                      (''date'', JStr ''2022''), (''value'', JNull)]]]"
         and pre = "[JObj [(''date'', JStr ''2021''), (''value'', JInt 5)]]"
         and r = "[(''country'', JObj [(''id'', JStr ''US''), (''value'', JStr ''United States'')]),
                      (''date'', JStr ''2022''), (''value'', JNull)]"
         and post = "[]" and country_name = "JStr ''United States''"
         and indicator_name = "JStr ''N/A''"]
    live_indicator_three_way
      [where H = "\<lambda>url params. Inr (JList [JObj [(''message'', JStr ''none'')]])"
         and cc = "''USA''" and ind = "''SE.ADT.LITR.ZS''" and year = 2022
         and envelope = "[JObj [(''message'', JStr ''none'')]]"]
    live_indicator_three_way
      [where H = "\<lambda>url params. Inr (JList
          [JObj [(''page'', JInt 1)], JList [JObj [(''date'', JStr ''2021''), (''value'', JInt 5)]]])"
         and cc = "''USA''" and ind = "''SE.ADT.LITR.ZS''" and year = 2022
         and envelope = "[JObj [(''page'', JInt 1)],
                          JList [JObj [(''date'', JStr ''2021''), (''value'', JInt 5)]]]"
         and records = "[JObj [(''date'', JStr ''2021''), (''value'', JInt 5)]]"]
  by (simp add: str_int_def str_nat.simps)

subsection \<open>\<^verbatim>\<open>get_country_info\<close> on a successful call\<close>

lemma fetch_first_match:
  "H (rest_countries_url cc) [] = Inr (JList (first # others))
   \<Longrightarrow> fetch_rest_countries H cc = Inr first"
  by (simp add: fetch_rest_countries_def bind_exn_def)

text \<open>
  C8. When the upstream call succeeds with an array whose first element is a country
  object with \<^verbatim>\<open>name.common\<close>, \<^verbatim>\<open>get_country_info\<close> builds its result from that first
  element alone: \<^verbatim>\<open>capital\<close> is the first element of the field, or \<^verbatim>\<open>N/A\<close> when the field
  is absent; \<^verbatim>\<open>region\<close> and \<^verbatim>\<open>subregion\<close> default to \<^verbatim>\<open>N/A\<close>, \<^verbatim>\<open>population\<close> to \<open>0\<close>,
  \<^verbatim>\<open>flag\<close> to the empty string; \<^verbatim>\<open>languages\<close> is the list of the values and \<^verbatim>\<open>currencies\<close>
  the list of the keys of the field, each empty when the field is absent.
\<close>

theorem country_info_shape_and_defaults:
  assumes "H (rest_countries_url cc) [] = Inr (JList (JObj d # others))"
    and "map_of d ''name'' = Some (JObj nm)"
    and "map_of nm ''common'' = Some name"
    and "map_of d ''capital'' = None \<and> capital = JStr ''N/A''
         \<or> (\<exists>cs. map_of d ''capital'' = Some (JList (capital # cs)))"
    and "map_of d ''languages'' = None \<and> languages = []
         \<or> (\<exists>l. map_of d ''languages'' = Some (JObj l) \<and> languages = map snd l)"
    and "map_of d ''currencies'' = None \<and> currencies = []
         \<or> (\<exists>c. map_of d ''currencies'' = Some (JObj c)
               \<and> currencies = map (\<lambda>kv. JStr (fst kv)) c)"
  shows "get_country_info H cc =
           Inr (JObj
             [(''name'', name),
              (''capital'', capital),
              (''region'', case map_of d ''region'' of Some v \<Rightarrow> v | None \<Rightarrow> JStr ''N/A''),
              (''subregion'', case map_of d ''subregion'' of Some v \<Rightarrow> v | None \<Rightarrow> JStr ''N/A''),
              (''languages'', JList languages),
              (''currencies'', JList currencies),
              (''population'', case map_of d ''population'' of Some v \<Rightarrow> v | None \<Rightarrow> JInt 0),
              (''flag'', case map_of d ''flag'' of Some v \<Rightarrow> v | None \<Rightarrow> JStr [])])"
proof -
  have f: "fetch_rest_countries H cc = Inr (JObj d)"
    using assms(1) by (rule fetch_first_match)
  show ?thesis
    using assms(2-6)
    by (auto simp: get_country_info_def country_info_try_def f bind_exn_def)
qed

theorem country_info_shape_and_defaults_witness:
  "get_country_info
     (\<lambda>url params. Inr (JList
        [JObj [(''name'', JObj [(''common'', JStr ''France'')]),
               (''languages'', JObj [(''fra'', JStr ''French'')]),
               (''population'', JInt 67391582)],
         JObj [(''name'', JObj [(''common'', JStr ''Other'')])]]))
     ''FR''
   = Inr (JObj [(''name'', JStr ''France''),
                (''capital'', JStr ''N/A''),
                (''region'', JStr ''N/A''),
                (''subregion'', JStr ''N/A''),
                (''languages'', JList [JStr ''French'']),
                (''currencies'', JList []),
                (''population'', JInt 67391582),
                (''flag'', JStr [])])"
  using
    country_info_shape_and_defaults
      [where H = "\<lambda>url params. Inr (JList
        [JObj [(''name'', JObj [(''common'', JStr ''France'')]),
               (''languages'', JObj [(''fra'', JStr ''French'')]),
               (''population'', JInt 67391582)],
         JObj [(''name'', JObj [(''common'', JStr ''Other'')])]])"
         and cc = "''FR''"
         and d = "[(''name'', JObj [(''common'', JStr ''France'')]),
               (''languages'', JObj [(''fra'', JStr ''French'')]),
               (''population'', JInt 67391582)]"
         and others = "[JObj [(''name'', JObj [(''common'', JStr ''Other'')])]]"
         and nm = "[(''common'', JStr ''France'')]" and name = "JStr ''France''"
         and capital = "JStr ''N/A''" and languages = "[JStr ''French'']"
         and currencies = "[]"]
  by simp

text \<open>
  C10. When the first match has no \<^verbatim>\<open>name\<close>, or a \<^verbatim>\<open>name\<close> without \<^verbatim>\<open>common\<close>, or a
  \<^verbatim>\<open>capital\<close> that is the empty list, \<^verbatim>\<open>get_country_info\<close> returns no defaulted success
  payload: the \<^verbatim>\<open>KeyError\<close> or \<^verbatim>\<open>IndexError\<close> reaches the last \<^verbatim>\<open>except\<close> clause and the result
  is an \<^verbatim>\<open>Unexpected error\<close> payload.
\<close>

theorem malformed_first_match_is_unexpected_error:
  assumes "H (rest_countries_url cc) [] = Inr (JList (JObj d # others))"
  shows "(map_of d ''name'' = None \<longrightarrow>
            get_country_info H cc
              = Inr (JObj [(''error'', JStr (''Unexpected error: '' @ quoted ''name''))]))
       \<and> (map_of d ''name'' = Some (JObj nm) \<and> map_of nm ''common'' = None \<longrightarrow>
            get_country_info H cc
              = Inr (JObj [(''error'', JStr (''Unexpected error: '' @ quoted ''common''))]))
       \<and> (map_of d ''name'' = Some (JObj nm) \<and> map_of nm ''common'' = Some name
          \<and> map_of d ''capital'' = Some (JList []) \<longrightarrow>
            get_country_info H cc
              = Inr (JObj [(''error'', JStr ''Unexpected error: list index out of range'')]))"
proof -
  have f: "fetch_rest_countries H cc = Inr (JObj d)"
    using assms by (rule fetch_first_match)
  show ?thesis
    by (simp add: get_country_info_def country_info_try_def f bind_exn_def error_payload_def)
qed

theorem malformed_first_match_is_unexpected_error_witness:
  "get_country_info (\<lambda>url params. Inr (JList [JObj [(''region'', JStr ''Europe'')]])) ''FR''
     = Inr (JObj [(''error'', JStr (''Unexpected error: '' @ [CHR 0x27] @ ''name'' @ [CHR 0x27]))])
   \<and> get_country_info
       (\<lambda>url params. Inr (JList
          [JObj [(''name'', JObj [(''common'', JStr ''France'')]), (''capital'', JList [])]]))
       ''FR''
     = Inr (JObj [(''error'', JStr ''Unexpected error: list index out of range'')])"
  using
    malformed_first_match_is_unexpected_error
      [where H = "\<lambda>url params. Inr (JList [JObj [(''region'', JStr ''Europe'')]])"
         and cc = "''FR''" and d = "[(''region'', JStr ''Europe'')]" and others = "[]"]
    malformed_first_match_is_unexpected_error
      [where H = "\<lambda>url params. Inr (JList
          [JObj [(''name'', JObj [(''common'', JStr ''France'')]), (''capital'', JList [])]])"
         and cc = "''FR''"
         and d = "[(''name'', JObj [(''common'', JStr ''France'')]), (''capital'', JList [])]"
         and others = "[]" and nm = "[(''common'', JStr ''France'')]" and name = "JStr ''France''"]
  by (simp add: quoted_def)

section \<open>Properties of the resources\<close>

lemma map_of_zip_cell_json:
  "map_of (zip names (map cell_json r)) k = map_option cell_json (map_of (zip names r) k)"
proof (induction names arbitrary: r)
  case Nil
  then show ?case by simp
next
  case (Cons n names)
  then show ?case by (cases r) simp_all
qed

lemma cell_json_str: "cell_json c = JStr s \<longleftrightarrow> c = StrCell s"
  by (cases c) auto

lemma load_data_present: "content st = Some r \<Longrightarrow> load_data st = r"
  by (simp add: load_data_def)

lemma load_data_missing:
  "content st = None \<Longrightarrow>
   load_data st = Inl (FileNotFoundError (''Data file not found: '' @ data_file st))"
  by (simp add: load_data_def)

text \<open>
  C4. When the upper-cased country code occurs in the \<^verbatim>\<open>countryiso3code\<close> column of the
  store, the indicators resource returns a non-empty array: the rows whose cell in that
  column is exactly the upper-cased code, in the order of the file, and in every
  returned row the field \<^verbatim>\<open>countryiso3code\<close> is the upper-cased code. This holds whatever
  \<^verbatim>\<open>str.upper\<close> maps the code to, so for codes outside ASCII too.
\<close>

theorem indicators_rows_match_code:
  assumes "content st = Some (Inr df)"
    and "map_of (schema df) ''countryiso3code'' = Some DString"
    and "\<exists>r \<in> set (rows df).
           map_of (zip (columns df) r) ''countryiso3code'' = Some (StrCell (upper country_code))"
  shows "\<exists>rs. get_country_indicators upper st country_code = Inr (JList rs)
              \<and> rs \<noteq> []
              \<and> rs = map (row_json (columns df))
                        (filter (\<lambda>r. map_of (zip (columns df) r) ''countryiso3code''
                                       = Some (StrCell (upper country_code))) (rows df))
              \<and> (\<forall>row \<in> set rs. \<exists>kvs. row = JObj kvs
                     \<and> map_of kvs ''countryiso3code'' = Some (JStr (upper country_code)))"
proof -
  let ?keep = "\<lambda>r. map_of (zip (columns df) r) ''countryiso3code''
                      = Some (StrCell (upper country_code))"
  from assms(3) have ne: "filter ?keep (rows df) \<noteq> []"
    by (simp add: filter_empty_conv)
  have r: "get_country_indicators upper st country_code
             = Inr (JList (map (row_json (columns df)) (filter ?keep (rows df))))"
    using ne
    by (simp add: get_country_indicators_def load_data_present [OF assms(1)] filter_eq_def
        assms(2) bind_exn_def is_empty_def write_json_def columns_def)
  have "\<forall>row \<in> set (map (row_json (columns df)) (filter ?keep (rows df))).
          \<exists>kvs. row = JObj kvs \<and> map_of kvs ''countryiso3code'' = Some (JStr (upper country_code))"
    by (auto simp: row_json_def map_of_zip_cell_json)
  with r ne show ?thesis by simp
qed

text \<open>
  C5. When no row of the store has the upper-cased code in its \<^verbatim>\<open>countryiso3code\<close>
  column, the indicators resource returns the object
  \<^verbatim>\<open>{"error": "Country code '<code>' not found in local dataset"}\<close>, with the code as the
  caller wrote it. This holds whatever \<^verbatim>\<open>str.upper\<close> maps the code to.
\<close>

theorem indicators_unknown_code:
  assumes "content st = Some (Inr df)"
    and "map_of (schema df) ''countryiso3code'' = Some DString"
    and "\<forall>r \<in> set (rows df).
           map_of (zip (columns df) r) ''countryiso3code'' \<noteq> Some (StrCell (upper country_code))"
  shows "get_country_indicators upper st country_code =
           Inr (JObj [(''error'',
                  JStr (''Country code '' @ quoted country_code
                        @ '' not found in local dataset''))])"
proof -
  from assms(3) have "filter (\<lambda>r. map_of (zip (columns df) r) ''countryiso3code''
                      = Some (StrCell (upper country_code))) (rows df) = []"
    by (simp add: filter_empty_conv)
  then show ?thesis
    by (simp add: get_country_indicators_def load_data_present [OF assms(1)] filter_eq_def
        assms(2) bind_exn_def is_empty_def error_payload_def)
qed

lemma get_countries_returns: "\<exists>doc. get_countries arrange st = Inr doc"
  by (simp add: get_countries_def split: sum.splits)

lemma get_country_indicators_returns: "\<exists>doc. get_country_indicators upper st cc = Inr doc"
  by (simp add: get_country_indicators_def split: sum.splits)

lemma select_raises: "select df names = Inl e \<Longrightarrow> \<exists>msg. e = OtherException msg"
  by (auto simp: select_def split: option.splits)

lemma filter_eq_raises: "filter_eq df name s = Inl e \<Longrightarrow> \<exists>msg. e = OtherException msg"
  by (auto simp: filter_eq_def split: option.splits dtype.splits)

lemma countries_except_payload: "\<exists>msg. countries_except e = JObj [(''error'', JStr msg)]"
  by (cases e) (simp_all add: error_payload_def)

lemma indicators_except_payload: "\<exists>msg. indicators_except e = JObj [(''error'', JStr msg)]"
  by (cases e) (simp_all add: error_payload_def)

lemma country_info_except_payload:
  "\<exists>msg. country_info_except cc e = JObj [(''error'', JStr msg)]"
  by (cases e) (simp_all add: error_payload_def)

lemma live_indicator_except_payload:
  "\<exists>msg. live_indicator_except cc ind e = JObj [(''error'', JStr msg)]"
  by (cases e) (simp_all add: error_payload_def)

lemma countries_payload_or_rows:
  "(\<exists>msg. get_countries arrange st = Inr (JObj [(''error'', JStr msg)]))
   \<or> (\<exists>df selected. content st = Some (Inr df)
         \<and> select df [''countryiso3code'', ''country''] = Inr selected
         \<and> get_countries arrange st = Inr (write_json (unique arrange selected)))"
proof (cases "load_data st")
  case (Inl e)
  then show ?thesis
    using countries_except_payload [of e] by (simp add: get_countries_def bind_exn_def)
next
  case (Inr df)
  then have c: "content st = Some (Inr df)"
    by (simp add: load_data_def split: option.splits)
  show ?thesis
  proof (cases "select df [''countryiso3code'', ''country'']")
    case (Inl e)
    then show ?thesis
      using Inr countries_except_payload [of e] by (simp add: get_countries_def bind_exn_def)
  next
    case sel: (Inr selected)
    then show ?thesis
      using Inr c by (simp add: get_countries_def bind_exn_def)
  qed
qed

lemma indicators_payload_or_rows:
  "(\<exists>msg. get_country_indicators upper st cc = Inr (JObj [(''error'', JStr msg)]))
   \<or> (\<exists>df filtered. content st = Some (Inr df)
         \<and> filter_eq df ''countryiso3code'' (upper cc) = Inr filtered
         \<and> \<not> is_empty filtered
         \<and> get_country_indicators upper st cc = Inr (write_json filtered))"
proof (cases "load_data st")
  case (Inl e)
  then show ?thesis
    using indicators_except_payload [of e]
    by (simp add: get_country_indicators_def bind_exn_def)
next
  case (Inr df)
  then have c: "content st = Some (Inr df)"
    by (simp add: load_data_def split: option.splits)
  show ?thesis
  proof (cases "filter_eq df ''countryiso3code'' (upper cc)")
    case (Inl e)
    then show ?thesis
      using Inr indicators_except_payload [of e]
      by (simp add: get_country_indicators_def bind_exn_def)
  next
    case f: (Inr filtered)
    then show ?thesis
      using Inr c by (simp add: get_country_indicators_def bind_exn_def error_payload_def)
  qed
qed

lemma compare_countries_entries:
  "\<exists>results. compare_countries H codes ind year = Inr results
     \<and> (\<forall>r \<in> set results.
           r = JObj [(''error'', JStr ''No country codes provided'')]
           \<or> (\<exists>c \<in> set codes. get_live_indicator H c ind year = Inr r))"
proof (cases "codes = []")
  case True
  then show ?thesis
    by (simp add: compare_countries_def compare_countries_with_def error_payload_def)
next
  case False
  have "\<forall>c \<in> set codes.
               get_live_indicator H c ind year
                 = Inr (case get_live_indicator H c ind year of
                          Inr r \<Rightarrow> r
                        | Inl e \<Rightarrow> partial_record c ind year e)"
    by (simp add: get_live_indicator_no_raise split: sum.splits)
  with False show ?thesis
    by (auto simp: compare_countries_def compare_countries_with_def compare_loop_map)
qed

text \<open>
  C9. With the data file missing, or with \<^verbatim>\<open>read_csv\<close> raising, the schema resource
  raises: the exception leaves it. The countries and the indicators resource return an
  error payload instead: the message of a \<^verbatim>\<open>FileNotFoundError\<close>, and for every other
  exception of the loader or of polars a message that starts with
  \<^verbatim>\<open>Failed to load countries\<close> or \<^verbatim>\<open>Failed to fetch indicators\<close>. Each of them returns
  either an error payload or the rows of a store that did load. The two single-country
  tools return either an error payload or what their \<^verbatim>\<open>try\<close> block returned, and an error
  payload when the outbound call raised; \<^verbatim>\<open>compare_countries\<close> returns a list whose entries
  are the error payload of the empty input or results of \<^verbatim>\<open>get_live_indicator\<close>.
\<close>

theorem only_schema_lets_missing_file_through:
  "(content st = None \<longrightarrow>
      get_schema st = Inl (FileNotFoundError (''Data file not found: '' @ data_file st))
      \<and> get_countries arrange st
          = Inr (JObj [(''error'', JStr (''Data file not found: '' @ data_file st))])
      \<and> get_country_indicators upper st cc
          = Inr (JObj [(''error'', JStr (''Data file not found: '' @ data_file st))]))
   \<and> (content st = Some (Inl e) \<longrightarrow> get_schema st = Inl e)
   \<and> (content st = Some (Inl (FileNotFoundError msg)) \<longrightarrow>
        get_countries arrange st = Inr (JObj [(''error'', JStr msg)])
        \<and> get_country_indicators upper st cc = Inr (JObj [(''error'', JStr msg)]))
   \<and> (content st = Some (Inl e) \<and> (\<forall>m. e \<noteq> FileNotFoundError m) \<longrightarrow>
        get_countries arrange st
          = Inr (JObj [(''error'', JStr (''Failed to load countries: '' @ str_exn e))])
        \<and> get_country_indicators upper st cc
          = Inr (JObj [(''error'', JStr (''Failed to fetch indicators: '' @ str_exn e))]))
   \<and> (content st = Some (Inr df) \<and> select df [''countryiso3code'', ''country''] = Inl e \<longrightarrow>
        get_countries arrange st
          = Inr (JObj [(''error'', JStr (''Failed to load countries: '' @ str_exn e))]))
   \<and> (content st = Some (Inr df) \<and> filter_eq df ''countryiso3code'' (upper cc) = Inl e \<longrightarrow>
        get_country_indicators upper st cc
          = Inr (JObj [(''error'', JStr (''Failed to fetch indicators: '' @ str_exn e))]))
   \<and> ((\<exists>m. get_countries arrange st = Inr (JObj [(''error'', JStr m)]))
      \<or> (\<exists>df selected. content st = Some (Inr df)
            \<and> select df [''countryiso3code'', ''country''] = Inr selected
            \<and> get_countries arrange st = Inr (write_json (unique arrange selected))))
   \<and> ((\<exists>m. get_country_indicators upper st cc = Inr (JObj [(''error'', JStr m)]))
      \<or> (\<exists>df filtered. content st = Some (Inr df)
            \<and> filter_eq df ''countryiso3code'' (upper cc) = Inr filtered
            \<and> \<not> is_empty filtered
            \<and> get_country_indicators upper st cc = Inr (write_json filtered)))
   \<and> (H (rest_countries_url cc) [] = Inl e \<longrightarrow>
        (\<exists>m. get_country_info H cc = Inr (JObj [(''error'', JStr m)])))
   \<and> ((\<exists>m. get_country_info H cc = Inr (JObj [(''error'', JStr m)]))
      \<or> (\<exists>info. country_info_try H cc = Inr info \<and> get_country_info H cc = Inr info))
   \<and> (H (world_bank_url cc ind) (world_bank_params year) = Inl e \<longrightarrow>
        (\<exists>m. get_live_indicator H cc ind year = Inr (JObj [(''error'', JStr m)])))
   \<and> ((\<exists>m. get_live_indicator H cc ind year = Inr (JObj [(''error'', JStr m)]))
      \<or> (\<exists>obs. live_indicator_try H cc ind year = Inr obs
            \<and> get_live_indicator H cc ind year = Inr obs))
   \<and> (\<exists>results. compare_countries H codes ind year = Inr results
        \<and> (\<forall>r \<in> set results.
              r = JObj [(''error'', JStr ''No country codes provided'')]
              \<or> (\<exists>c \<in> set codes. get_live_indicator H c ind year = Inr r)))"
proof (intro conjI impI)
  assume m: "content st = None"
  show "get_schema st = Inl (FileNotFoundError (''Data file not found: '' @ data_file st))"
    by (simp add: get_schema_def load_data_missing [OF m] bind_exn_def)
  show "get_countries arrange st
          = Inr (JObj [(''error'', JStr (''Data file not found: '' @ data_file st))])"
    by (simp add: get_countries_def load_data_missing [OF m] bind_exn_def error_payload_def)
  show "get_country_indicators upper st cc
          = Inr (JObj [(''error'', JStr (''Data file not found: '' @ data_file st))])"
    by (simp add: get_country_indicators_def load_data_missing [OF m] bind_exn_def
        error_payload_def)
next
  assume "content st = Some (Inl e)"
  then show "get_schema st = Inl e"
    by (simp add: get_schema_def load_data_present bind_exn_def)
next
  assume f: "content st = Some (Inl (FileNotFoundError msg))"
  show "get_countries arrange st = Inr (JObj [(''error'', JStr msg)])"
    by (simp add: get_countries_def load_data_present [OF f] bind_exn_def error_payload_def)
  show "get_country_indicators upper st cc = Inr (JObj [(''error'', JStr msg)])"
    by (simp add: get_country_indicators_def load_data_present [OF f] bind_exn_def
        error_payload_def)
next
  assume o: "content st = Some (Inl e) \<and> (\<forall>m. e \<noteq> FileNotFoundError m)"
  then have l: "load_data st = Inl e"
    by (simp add: load_data_present)
  from o have c: "countries_except e = error_payload (''Failed to load countries: '' @ str_exn e)"
    by (cases e) simp_all
  from o have i: "indicators_except e
                    = error_payload (''Failed to fetch indicators: '' @ str_exn e)"
    by (cases e) simp_all
  show "get_countries arrange st
          = Inr (JObj [(''error'', JStr (''Failed to load countries: '' @ str_exn e))])"
    by (simp add: get_countries_def l c bind_exn_def) (simp add: error_payload_def)
  show "get_country_indicators upper st cc
          = Inr (JObj [(''error'', JStr (''Failed to fetch indicators: '' @ str_exn e))])"
    by (simp add: get_country_indicators_def l i bind_exn_def) (simp add: error_payload_def)
next
  assume s: "content st = Some (Inr df) \<and> select df [''countryiso3code'', ''country''] = Inl e"
  then obtain m where "e = OtherException m"
    using select_raises by blast
  with s show "get_countries arrange st
          = Inr (JObj [(''error'', JStr (''Failed to load countries: '' @ str_exn e))])"
    by (simp add: get_countries_def load_data_present bind_exn_def error_payload_def)
next
  assume s: "content st = Some (Inr df) \<and> filter_eq df ''countryiso3code'' (upper cc) = Inl e"
  then obtain m where "e = OtherException m"
    using filter_eq_raises by blast
  with s show "get_country_indicators upper st cc
          = Inr (JObj [(''error'', JStr (''Failed to fetch indicators: '' @ str_exn e))])"
    by (simp add: get_country_indicators_def load_data_present bind_exn_def error_payload_def)
next
  show "(\<exists>m. get_countries arrange st = Inr (JObj [(''error'', JStr m)]))
      \<or> (\<exists>df selected. content st = Some (Inr df)
            \<and> select df [''countryiso3code'', ''country''] = Inr selected
            \<and> get_countries arrange st = Inr (write_json (unique arrange selected)))"
    by (rule countries_payload_or_rows)
  show "(\<exists>m. get_country_indicators upper st cc = Inr (JObj [(''error'', JStr m)]))
      \<or> (\<exists>df filtered. content st = Some (Inr df)
            \<and> filter_eq df ''countryiso3code'' (upper cc) = Inr filtered
            \<and> \<not> is_empty filtered
            \<and> get_country_indicators upper st cc = Inr (write_json filtered))"
    by (rule indicators_payload_or_rows)
next
  assume "H (rest_countries_url cc) [] = Inl e"
  then show "\<exists>m. get_country_info H cc = Inr (JObj [(''error'', JStr m)])"
    using country_info_except_payload [of cc e] by (simp add: country_info_failure)
next
  show "(\<exists>m. get_country_info H cc = Inr (JObj [(''error'', JStr m)]))
      \<or> (\<exists>info. country_info_try H cc = Inr info \<and> get_country_info H cc = Inr info)"
  proof (cases "country_info_try H cc")
    case (Inl x)
    then show ?thesis
      using country_info_except_payload [of cc x] by (simp add: get_country_info_def)
  next
    case (Inr info)
    then show ?thesis by (simp add: get_country_info_def)
  qed
next
  assume "H (world_bank_url cc ind) (world_bank_params year) = Inl e"
  then show "\<exists>m. get_live_indicator H cc ind year = Inr (JObj [(''error'', JStr m)])"
    using live_indicator_except_payload [of cc ind e] by (simp add: live_indicator_failure)
next
  show "(\<exists>m. get_live_indicator H cc ind year = Inr (JObj [(''error'', JStr m)]))
      \<or> (\<exists>obs. live_indicator_try H cc ind year = Inr obs
            \<and> get_live_indicator H cc ind year = Inr obs)"
  proof (cases "live_indicator_try H cc ind year")
    case (Inl x)
    then show ?thesis
      using live_indicator_except_payload [of cc ind x] by (simp add: get_live_indicator_def)
  next
    case (Inr obs)
    then show ?thesis by (simp add: get_live_indicator_def)
  qed
next
  show "\<exists>results. compare_countries H codes ind year = Inr results
        \<and> (\<forall>r \<in> set results.
              r = JObj [(''error'', JStr ''No country codes provided'')]
              \<or> (\<exists>c \<in> set codes. get_live_indicator H c ind year = Inr r))"
    by (rule compare_countries_entries)
qed


theorem indicators_rows_match_code_witness:
  "get_country_indicators ascii_upper
     \<lparr>data_file = ''data/world_bank_indicators.csv'',
      content = Some (Inr
        \<lparr>schema = [(''countryiso3code'', DString), (''country'', DString), (''year'', DInt64)],
         rows = [[StrCell ''USA'', StrCell ''United States'', IntCell 2021],
                 [StrCell ''CHN'', StrCell ''China'', IntCell 2021],
                 [StrCell ''USA'', StrCell ''United States'', IntCell 2022]]\<rparr>)\<rparr>
     ''usa''
   = Inr (JList
       [JObj [(''countryiso3code'', JStr ''USA''), (''country'', JStr ''United States''),
              (''year'', JInt 2021)],
        JObj [(''countryiso3code'', JStr ''USA''), (''country'', JStr ''United States''),
              (''year'', JInt 2022)]])"
  using
    indicators_rows_match_code
      [where st = "\<lparr>data_file = ''data/world_bank_indicators.csv'',
      content = Some (Inr
        \<lparr>schema = [(''countryiso3code'', DString), (''country'', DString), (''year'', DInt64)],
         rows = [[StrCell ''USA'', StrCell ''United States'', IntCell 2021],
                 [StrCell ''CHN'', StrCell ''China'', IntCell 2021],
                 [StrCell ''USA'', StrCell ''United States'', IntCell 2022]]\<rparr>)\<rparr>"
         and df = "\<lparr>schema = [(''countryiso3code'', DString), (''country'', DString), (''year'', DInt64)],
         rows = [[StrCell ''USA'', StrCell ''United States'', IntCell 2021],
                 [StrCell ''CHN'', StrCell ''China'', IntCell 2021],
                 [StrCell ''USA'', StrCell ''United States'', IntCell 2022]]\<rparr>"
         and upper = ascii_upper and country_code = "''usa''"]
  by (simp add: ascii_upper_def ascii_upper_char_def columns_def row_json_def)

theorem indicators_unknown_code_witness:
  "get_country_indicators ascii_upper
     \<lparr>data_file = ''data/world_bank_indicators.csv'',
      content = Some (Inr
        \<lparr>schema = [(''countryiso3code'', DString), (''country'', DString), (''year'', DInt64)],
         rows = [[StrCell ''USA'', StrCell ''United States'', IntCell 2021],
                 [StrCell ''CHN'', StrCell ''China'', IntCell 2021]]\<rparr>)\<rparr>
     ''xyz''
   = Inr (JObj [(''error'', JStr ''Country code 'xyz' not found in local dataset'')])"
  using
    indicators_unknown_code
      [where st = "\<lparr>data_file = ''data/world_bank_indicators.csv'',
      content = Some (Inr
        \<lparr>schema = [(''countryiso3code'', DString), (''country'', DString), (''year'', DInt64)],
         rows = [[StrCell ''USA'', StrCell ''United States'', IntCell 2021],
                 [StrCell ''CHN'', StrCell ''China'', IntCell 2021]]\<rparr>)\<rparr>"
         and df = "\<lparr>schema = [(''countryiso3code'', DString), (''country'', DString), (''year'', DInt64)],
         rows = [[StrCell ''USA'', StrCell ''United States'', IntCell 2021],
                 [StrCell ''CHN'', StrCell ''China'', IntCell 2021]]\<rparr>"
         and upper = ascii_upper and country_code = "''xyz''"]
  by (simp add: ascii_upper_def ascii_upper_char_def columns_def quoted_def)

theorem only_schema_lets_missing_file_through_witness:
  "get_schema \<lparr>data_file = ''data/world_bank_indicators.csv'', content = None\<rparr>
     = Inl (FileNotFoundError ''Data file not found: data/world_bank_indicators.csv'')
   \<and> get_countries rev \<lparr>data_file = ''data/world_bank_indicators.csv'', content = None\<rparr>
     = Inr (JObj [(''error'', JStr ''Data file not found: data/world_bank_indicators.csv'')])
   \<and> get_country_indicators ascii_upper
       \<lparr>data_file = ''data/world_bank_indicators.csv'', content = None\<rparr> ''USA''
     = Inr (JObj [(''error'', JStr ''Data file not found: data/world_bank_indicators.csv'')])
   \<and> get_schema
       \<lparr>data_file = ''data/world_bank_indicators.csv'',
        content = Some (Inl (OtherException ''could not parse the file''))\<rparr>
     = Inl (OtherException ''could not parse the file'')
   \<and> get_countries rev
       \<lparr>data_file = ''data/world_bank_indicators.csv'',
        content = Some (Inl (OtherException ''could not parse the file''))\<rparr>
     = Inr (JObj [(''error'', JStr ''Failed to load countries: could not parse the file'')])
   \<and> get_country_indicators ascii_upper
       \<lparr>data_file = ''data/world_bank_indicators.csv'',
        content = Some (Inl (OtherException ''could not parse the file''))\<rparr> ''USA''
     = Inr (JObj [(''error'', JStr ''Failed to fetch indicators: could not parse the file'')])
   \<and> get_countries rev
       \<lparr>data_file = ''data/world_bank_indicators.csv'',
        content = Some (Inr \<lparr>schema = [(''country'', DString)], rows = [[StrCell ''China'']]\<rparr>)\<rparr>
     = Inr (JObj [(''error'',
              JStr ''Failed to load countries: unable to find column countryiso3code'')])"
  using
    only_schema_lets_missing_file_through
      [where st = "\<lparr>data_file = ''data/world_bank_indicators.csv'', content = None\<rparr>"
         and arrange = rev and upper = ascii_upper and cc = "''USA''"]
    only_schema_lets_missing_file_through
      [where st = "\<lparr>data_file = ''data/world_bank_indicators.csv'',
                    content = Some (Inl (OtherException ''could not parse the file''))\<rparr>"
         and arrange = rev and upper = ascii_upper and cc = "''USA''"
         and e = "OtherException ''could not parse the file''"]
    only_schema_lets_missing_file_through
      [where st = "\<lparr>data_file = ''data/world_bank_indicators.csv'',
        content = Some (Inr \<lparr>schema = [(''country'', DString)], rows = [[StrCell ''China'']]\<rparr>)\<rparr>"
         and arrange = rev
         and df = "\<lparr>schema = [(''country'', DString)], rows = [[StrCell ''China'']]\<rparr>"
         and e = "OtherException ''unable to find column countryiso3code''"]
  by (simp add: select_def)

lemma arrangement_id: "arrangement id"
  by (simp add: arrangement_def)

lemma arrangement_rev: "arrangement rev"
  by (simp add: arrangement_def)

text \<open>
  C3, as stated, fails for the countries resource. \<^verbatim>\<open>unique()\<close> is called with
  \<^verbatim>\<open>maintain_order\<close> at its default, so two calls on the same file may emit the distinct
  rows in different orders: here one call returns China before the United States and
  another the United States before China.
\<close>

theorem countries_byte_identical_counterexample:
  "arrangement id \<and> arrangement rev
   \<and> get_countries id
       \<lparr>data_file = ''data/world_bank_indicators.csv'',
        content = Some (Inr
          \<lparr>schema = [(''countryiso3code'', DString), (''country'', DString), (''year'', DInt64)],
           rows = [[StrCell ''USA'', StrCell ''United States'', IntCell 2021],
                   [StrCell ''CHN'', StrCell ''China'', IntCell 2021],
                   [StrCell ''USA'', StrCell ''United States'', IntCell 2022]]\<rparr>)\<rparr>
     = Inr (JList
         [JObj [(''countryiso3code'', JStr ''CHN''), (''country'', JStr ''China'')],
          JObj [(''countryiso3code'', JStr ''USA''), (''country'', JStr ''United States'')]])
   \<and> get_countries rev
       \<lparr>data_file = ''data/world_bank_indicators.csv'',
        content = Some (Inr
          \<lparr>schema = [(''countryiso3code'', DString), (''country'', DString), (''year'', DInt64)],
           rows = [[StrCell ''USA'', StrCell ''United States'', IntCell 2021],
                   [StrCell ''CHN'', StrCell ''China'', IntCell 2021],
                   [StrCell ''USA'', StrCell ''United States'', IntCell 2022]]\<rparr>)\<rparr>
     = Inr (JList
         [JObj [(''countryiso3code'', JStr ''USA''), (''country'', JStr ''United States'')],
          JObj [(''countryiso3code'', JStr ''CHN''), (''country'', JStr ''China'')]])
   \<and> get_countries id
       \<lparr>data_file = ''data/world_bank_indicators.csv'',
        content = Some (Inr
          \<lparr>schema = [(''countryiso3code'', DString), (''country'', DString), (''year'', DInt64)],
           rows = [[StrCell ''USA'', StrCell ''United States'', IntCell 2021],
                   [StrCell ''CHN'', StrCell ''China'', IntCell 2021],
                   [StrCell ''USA'', StrCell ''United States'', IntCell 2022]]\<rparr>)\<rparr>
     \<noteq> get_countries rev
       \<lparr>data_file = ''data/world_bank_indicators.csv'',
        content = Some (Inr
          \<lparr>schema = [(''countryiso3code'', DString), (''country'', DString), (''year'', DInt64)],
           rows = [[StrCell ''USA'', StrCell ''United States'', IntCell 2021],
                   [StrCell ''CHN'', StrCell ''China'', IntCell 2021],
                   [StrCell ''USA'', StrCell ''United States'', IntCell 2022]]\<rparr>)\<rparr>"
  by (simp add: arrangement_id arrangement_rev get_countries_def load_data_def select_def
      unique_def write_json_def row_json_def columns_def bind_exn_def List.map_filter_def)

text \<open>
  C3, amended. For a fixed content of the data file, the schema resource returns the
  same document on every call, and two calls of the countries resource return either
  the same error payload or two arrays with the same rows, each row as often in one as
  in the other; only the order of the rows may differ.
\<close>

theorem schema_fixed_countries_fixed_up_to_order:
  assumes "content st = Some c" and "content st' = Some c"
    and "arrangement a" and "arrangement a'"
  shows "get_schema st = get_schema st'
       \<and> ((\<exists>rs rs'. get_countries a st = Inr (JList rs)
                    \<and> get_countries a' st' = Inr (JList rs')
                    \<and> mset rs = mset rs')
          \<or> (\<exists>msg. get_countries a st = Inr (JObj [(''error'', JStr msg)])
                  \<and> get_countries a' st' = Inr (JObj [(''error'', JStr msg)])))"
proof
  show "get_schema st = get_schema st'"
    by (simp add: get_schema_def load_data_present [OF assms(1)]
        load_data_present [OF assms(2)])
next
  let ?sel = "bind_exn c (\<lambda>df. select df [''countryiso3code'', ''country''])"
  have g: "\<And>arr s. content s = Some c \<Longrightarrow>
             get_countries arr s =
               (case ?sel of
                  Inl e \<Rightarrow> Inr (countries_except e)
                | Inr selected \<Rightarrow> Inr (write_json (unique arr selected)))"
    by (simp add: get_countries_def load_data_present bind_exn_def split: sum.splits)
  show "(\<exists>rs rs'. get_countries a st = Inr (JList rs)
                    \<and> get_countries a' st' = Inr (JList rs')
                    \<and> mset rs = mset rs')
          \<or> (\<exists>msg. get_countries a st = Inr (JObj [(''error'', JStr msg)])
                  \<and> get_countries a' st' = Inr (JObj [(''error'', JStr msg)]))"
  proof (cases ?sel)
    case (Inl e)
    then show ?thesis
      using countries_except_payload [of e] by (simp add: g assms(1,2))
  next
    case (Inr selected)
    have "mset (map (row_json (columns selected)) (a (remdups (rows selected))))
          = mset (map (row_json (columns selected)) (a' (remdups (rows selected))))"
      using assms(3,4) by (simp add: arrangement_def)
    with Inr show ?thesis
      by (simp add: g assms(1,2) write_json_def unique_def columns_def)
  qed
qed

theorem schema_fixed_countries_fixed_up_to_order_witness:
  "get_schema
       \<lparr>data_file = ''data/world_bank_indicators.csv'',
        content = Some (Inr
          \<lparr>schema = [(''countryiso3code'', DString), (''country'', DString)],
           rows = [[StrCell ''USA'', StrCell ''United States''],
                   [StrCell ''CHN'', StrCell ''China'']]\<rparr>)\<rparr>
     = get_schema
       \<lparr>data_file = ''copy.csv'',
        content = Some (Inr
          \<lparr>schema = [(''countryiso3code'', DString), (''country'', DString)],
           rows = [[StrCell ''USA'', StrCell ''United States''],
                   [StrCell ''CHN'', StrCell ''China'']]\<rparr>)\<rparr>
   \<and> (\<exists>rs rs'.
         get_countries id
           \<lparr>data_file = ''data/world_bank_indicators.csv'',
            content = Some (Inr
              \<lparr>schema = [(''countryiso3code'', DString), (''country'', DString)],
               rows = [[StrCell ''USA'', StrCell ''United States''],
                       [StrCell ''CHN'', StrCell ''China'']]\<rparr>)\<rparr>
           = Inr (JList rs)
         \<and> get_countries rev
             \<lparr>data_file = ''copy.csv'',
              content = Some (Inr
                \<lparr>schema = [(''countryiso3code'', DString), (''country'', DString)],
                 rows = [[StrCell ''USA'', StrCell ''United States''],
                         [StrCell ''CHN'', StrCell ''China'']]\<rparr>)\<rparr>
           = Inr (JList rs')
         \<and> mset rs = mset rs')"
  using
    schema_fixed_countries_fixed_up_to_order
      [where st = "\<lparr>data_file = ''data/world_bank_indicators.csv'',
            content = Some (Inr
              \<lparr>schema = [(''countryiso3code'', DString), (''country'', DString)],
               rows = [[StrCell ''USA'', StrCell ''United States''],
                       [StrCell ''CHN'', StrCell ''China'']]\<rparr>)\<rparr>"
         and st' = "\<lparr>data_file = ''copy.csv'',
              content = Some (Inr
                \<lparr>schema = [(''countryiso3code'', DString), (''country'', DString)],
                 rows = [[StrCell ''USA'', StrCell ''United States''],
                         [StrCell ''CHN'', StrCell ''China'']]\<rparr>)\<rparr>"
         and c = "Inr \<lparr>schema = [(''countryiso3code'', DString), (''country'', DString)],
               rows = [[StrCell ''USA'', StrCell ''United States''],
                       [StrCell ''CHN'', StrCell ''China'']]\<rparr>"
         and a = id and a' = rev, OF _ _ arrangement_id arrangement_rev]
  by (simp add: get_countries_def load_data_def select_def
      unique_def write_json_def row_json_def columns_def bind_exn_def List.map_filter_def
      error_payload_def)

end
